theory Spec2Isabelle
  imports Complex_Main "HOL-Library.AList" "HOL-Library.Word"
begin

unbundle bit_operations_syntax

section \<open>The vendored Cloudflare v4 API client (cloudflare.go)\<close>

subsection \<open>Errors\<close>

text \<open>
  The client builds its errors with \<^verbatim>\<open>errors.New\<close>, \<^verbatim>\<open>errors.Errorf\<close> and
  \<^verbatim>\<open>errors.Wrap\<close> of github.com/pkg/errors. An error value is kept as the call that
  built it: the format string with its arguments, not the rendered text. A nil pointer
  dereference is a run-time panic.
\<close>

datatype fmt_arg = D int | Q string

datatype error =
    errors_New string
  | errors_Errorf string "fmt_arg list"
  | errors_Wrap error string
  | panic_nil_dereference

subsection \<open>Constants\<close>

text \<open>
  \<^verbatim>\<open>const ( AuthApiToken = 1 << iota; AuthKeyEmail; AuthUserService )\<close>:
  the shift is repeated with iota = 0, 1, 2. The auth type is a Go \<^verbatim>\<open>int\<close>, 64 bits wide.
\<close>

definition AuthApiToken :: "64 word" where
  "AuthApiToken = push_bit 0 1"

definition AuthKeyEmail :: "64 word" where
  "AuthKeyEmail = push_bit 1 1"

definition AuthUserService :: "64 word" where
  "AuthUserService = push_bit 2 1"

subsection \<open>Headers, requests, responses\<close>

text \<open>
  \<^verbatim>\<open>http.Header\<close> is \<^verbatim>\<open>map[string][]string\<close>. In memory a map object is the list of
  its entries, in the order a \<^verbatim>\<open>range\<close> visits them, and the value under a key is the
  address of the slice's backing array: storing a slice under a key of another map
  shares the array, as in Go. As sent, a header is the list of its entries with their
  values.
\<close>

type_synonym header = "(string \<times> string list) list"

type_synonym header_map = "(string \<times> nat) list"

record http_request =
  Method :: string
  URL :: string
  ReqBody :: "string option"
  Header :: header

text \<open>
  Of a response the client reads the status code and the body; \<open>Body\<close> is what
  \<^verbatim>\<open>ioutil.ReadAll(resp.Body)\<close> returns: the bytes, or the read error.
\<close>

record http_response =
  StatusCode :: int
  Body :: "error + string"

subsection \<open>The client and the memory it lives in\<close>

text \<open>
  \<open>heap\<close> holds the header map objects and \<open>slices\<close> the backing arrays of their
  values, an address being an index; \<open>sent\<close> is the log of the requests handed to
  \<^verbatim>\<open>httpClient.Do\<close>, oldest first, each with its header as it was at that moment.
\<close>

record world =
  heap :: "header_map list"
  slices :: "string list list"
  sent :: "http_request list"

text \<open>
  \<^verbatim>\<open>http.Client.Do\<close>: the transport is handed the request (as sent, and the address of
  its header map) and the memory, which it can write to; it returns the memory as it
  leaves it, and its answer or its error.
\<close>

type_synonym http_client = "http_request \<Rightarrow> nat \<Rightarrow> world \<Rightarrow> world \<times> (error + http_response)"

text \<open>
  \<open>headers\<close> is a reference to a map object (\<open>None\<close> is the nil map), \<open>httpClient\<close>
  a pointer (\<open>None\<close> is nil).
\<close>

record API =
  APIToken :: string
  APIKey :: string
  APIEmail :: string
  APIUserServiceKey :: string
  BaseURL :: string
  organizationID :: string
  headers :: "nat option"
  httpClient :: "http_client option"
  authType :: "64 word"

text \<open>
  What the code takes from outside these files: the constant \<^verbatim>\<open>errEmptyCredentials\<close>,
  \<^verbatim>\<open>http.DefaultClient\<close>, \<^verbatim>\<open>json.Marshal\<close> on the parameters of a call, and whether
  \<^verbatim>\<open>http.NewRequest\<close> accepts a method and URL (\<open>Some err\<close> when it does not).
\<close>

record 'p env =
  errEmptyCredentials :: string
  DefaultClient :: http_client
  json_Marshal :: "'p \<Rightarrow> error + string"
  http_NewRequest :: "string \<Rightarrow> string \<Rightarrow> error option"

definition apiURL :: string where
  "apiURL = ''https://api.cloudflare.com/client/v4''"

subsection \<open>Map objects in memory\<close>

text \<open>\<^verbatim>\<open>make(http.Header)\<close>: a new, empty map object at the next free address.\<close>

definition make_Header :: "world \<Rightarrow> nat \<times> world" where
  "make_Header w = (length (heap w), w\<lparr>heap := heap w @ [[]]\<rparr>)"

text \<open>\<^verbatim>\<open>[]string{...}\<close>: a new backing array at the next free address.\<close>

definition make_slice :: "string list \<Rightarrow> world \<Rightarrow> nat \<times> world" where
  "make_slice vals w = (length (slices w), w\<lparr>slices := slices w @ [vals]\<rparr>)"

text \<open>A nil map reads as the empty map.\<close>

definition deref :: "world \<Rightarrow> nat option \<Rightarrow> header_map" where
  "deref w r = (case r of None \<Rightarrow> [] | Some a \<Rightarrow> heap w ! a)"

text \<open>
  \<^verbatim>\<open>h[k] = vs\<close> on the map object at address \<open>h\<close>: the entry now refers to the array of
  \<open>vs\<close>; no array is copied.
\<close>

definition map_assign :: "nat \<Rightarrow> string \<Rightarrow> nat \<Rightarrow> world \<Rightarrow> world" where
  "map_assign h k vs w = w\<lparr>heap := (heap w)[h := AList.update k vs (heap w ! h)]\<rparr>"

text \<open>
  \<^verbatim>\<open>Header.Set\<close> and \<^verbatim>\<open>Header.Get\<close> first bring the key into canonical MIME form;
  every key this client passes (Authorization, X-Auth-Key, X-Auth-Email,
  X-Auth-User-Service-Key, Content-Type) is in that form already. \<^verbatim>\<open>Set\<close> stores a
  new one-element slice; \<^verbatim>\<open>Get\<close> returns the first value, or the empty string.
\<close>

definition Header_Set :: "nat \<Rightarrow> string \<Rightarrow> string \<Rightarrow> world \<Rightarrow> world" where
  "Header_Set h key val w = (let (vs, w1) = make_slice [val] w in map_assign h key vs w1)"

definition Header_Get :: "nat \<Rightarrow> string \<Rightarrow> world \<Rightarrow> string" where
  "Header_Get h key w =
     (case map_of (heap w ! h) key of
        None \<Rightarrow> []
      | Some vs \<Rightarrow> (case slices w ! vs of [] \<Rightarrow> [] | v # _ \<Rightarrow> v))"

text \<open>
  \<^verbatim>\<open>cloneHeader\<close>: a new map object, then \<^verbatim>\<open>h[k] = vs\<close> for every entry of the
  argument. The copy is shallow: its entries refer to the arrays of the argument's
  values. It returns the address of the new object.
\<close>

definition cloneHeader :: "world \<Rightarrow> nat option \<Rightarrow> nat \<times> world" where
  "cloneHeader w hdr =
     (let (h, w1) = make_Header w
      in (h, fold (\<lambda>(k, vs) w'. map_assign h k vs w') (deref w hdr) w1))"

text \<open>The header at address \<open>h\<close> with the values its entries refer to.\<close>

definition header_values :: "world \<Rightarrow> nat \<Rightarrow> header" where
  "header_values w h = map (\<lambda>(k, vs). (k, slices w ! vs)) (heap w ! h)"

text \<open>
  Every map object and every array of \<open>w\<close> is in \<open>w'\<close>, at its address and with the
  contents it has in \<open>w\<close>.
\<close>

definition preserved :: "world \<Rightarrow> world \<Rightarrow> bool" where
  "preserved w w' \<longleftrightarrow>
     take (length (heap w)) (heap w') = heap w \<and>
     take (length (slices w)) (slices w') = slices w"

subsection \<open>Requests\<close>

text \<open>
  \<^verbatim>\<open>request\<close>. The receiver is a pointer, so the client is returned as the call leaves
  it, with the memory. \<^verbatim>\<open>http.NewRequest\<close> turns the empty method into GET.
\<close>

definition request ::
  "'p env \<Rightarrow> API \<Rightarrow> world \<Rightarrow> string \<Rightarrow> string \<Rightarrow> string option \<Rightarrow> 64 word \<Rightarrow>
     (API \<times> world) \<times> (error + http_response)" where
  "request env api w method uri reqBody authT =
     (case http_NewRequest env method (BaseURL api @ uri) of
        Some err \<Rightarrow> ((api, w), Inl (errors_Wrap err ''HTTP request creation failed''))
      | None \<Rightarrow>
          let (h, w1) = cloneHeader w (headers api);
              w2 = (if authT AND AuthApiToken \<noteq> 0
                    then Header_Set h ''Authorization'' (''Bearer '' @ APIToken api) w1
                    else w1);
              w3 = (if authT AND AuthKeyEmail \<noteq> 0
                    then Header_Set h ''X-Auth-Email'' (APIEmail api)
                           (Header_Set h ''X-Auth-Key'' (APIKey api) w2)
                    else w2);
              w4 = (if authT AND AuthUserService \<noteq> 0
                    then Header_Set h ''X-Auth-User-Service-Key'' (APIUserServiceKey api) w3
                    else w3);
              w5 = (if Header_Get h ''Content-Type'' w4 = []
                    then Header_Set h ''Content-Type'' ''application/json'' w4
                    else w4)
          in (case httpClient api of
                None \<Rightarrow> ((api, w5), Inl panic_nil_dereference)
              | Some client \<Rightarrow>
                  let req = \<lparr>Method = (if method = [] then ''GET'' else method),
                             URL = BaseURL api @ uri, ReqBody = reqBody,
                             Header = header_values w5 h\<rparr>
                  in (case client req h w5 of
                        (w6, Inl err) \<Rightarrow>
                          ((api, w6\<lparr>sent := sent w5 @ [req]\<rparr>),
                           Inl (errors_Wrap err ''HTTP request failed''))
                      | (w6, Inr resp) \<Rightarrow>
                          ((api, w6\<lparr>sent := sent w5 @ [req]\<rparr>), Inr resp))))"

text \<open>
  The \<^verbatim>\<open>switch resp.StatusCode\<close> of \<^verbatim>\<open>makeRequestWithAuthType\<close>, on a body that was
  read. \<^verbatim>\<open>ioutil.ReadAll\<close> returns a non-nil slice when it succeeds, so \<^verbatim>\<open>s\<close> is the
  body as a string.
\<close>

definition status_switch :: "int \<Rightarrow> string \<Rightarrow> error + string" where
  "status_switch code body =
     (if code = 200 then Inr body
      else if code = 401 then
        Inl (errors_Errorf ''HTTP status %d: invalid credentials'' [D code])
      else if code = 403 then
        Inl (errors_Errorf ''HTTP status %d: insufficient permissions'' [D code])
      else if code = 503 \<or> code = 502 \<or> code = 504 \<or> code = 522 \<or> code = 523 \<or> code = 524 then
        Inl (errors_Errorf ''HTTP status %d: service failure'' [D code])
      else
        Inl (errors_Errorf ''HTTP status %d: content %q'' [D code, Q body]))"

text \<open>The request body: nil for nil parameters, else their JSON.\<close>

definition marshal_params :: "'p env \<Rightarrow> 'p option \<Rightarrow> error + string option" where
  "marshal_params env params =
     (case params of
        None \<Rightarrow> Inr None
      | Some p \<Rightarrow>
          (case json_Marshal env p of
             Inl err \<Rightarrow> Inl (errors_Wrap err ''error marshalling params to JSON'')
           | Inr js \<Rightarrow> Inr (Some js)))"

definition makeRequestWithAuthType ::
  "'p env \<Rightarrow> API \<Rightarrow> world \<Rightarrow> string \<Rightarrow> string \<Rightarrow> 'p option \<Rightarrow> 64 word \<Rightarrow>
     (API \<times> world) \<times> (error + string)" where
  "makeRequestWithAuthType env api w method uri params authT =
     (case marshal_params env params of
        Inl err \<Rightarrow> ((api, w), Inl err)
      | Inr reqBody \<Rightarrow>
          (case request env api w method uri reqBody authT of
             (s, Inl err) \<Rightarrow> (s, Inl err)
           | (s, Inr resp) \<Rightarrow>
               (case Body resp of
                  Inl err \<Rightarrow> (s, Inl (errors_Wrap err ''could not read response body''))
                | Inr body \<Rightarrow> (s, status_switch (StatusCode resp) body))))"

definition makeRequest ::
  "'p env \<Rightarrow> API \<Rightarrow> world \<Rightarrow> string \<Rightarrow> string \<Rightarrow> 'p option \<Rightarrow>
     (API \<times> world) \<times> (error + string)" where
  "makeRequest env api w method uri params =
     makeRequestWithAuthType env api w method uri params (authType api)"

subsection \<open>Construction\<close>

text \<open>
  \<^verbatim>\<open>New\<close>. \<open>parseOptions\<close> stands for \<^verbatim>\<open>api.parseOptions(opts...)\<close> on the options
  passed, which is defined outside these files: it returns its error, or the client and
  the memory as the options left them.
\<close>

definition New ::
  "'p env \<Rightarrow> (API \<times> world \<Rightarrow> error + API \<times> world) \<Rightarrow> world \<Rightarrow>
     string \<Rightarrow> string \<Rightarrow> string \<Rightarrow> error + API \<times> world" where
  "New env parseOptions w token key email =
     (if token = [] \<and> (key = [] \<or> email = []) then
        Inl (errors_New (errEmptyCredentials env))
      else
        let (a, w1) = make_Header w;
            api = \<lparr>APIToken = token, APIKey = key, APIEmail = email,
                   APIUserServiceKey = [], BaseURL = apiURL, organizationID = [],
                   headers = Some a, httpClient = None, authType = AuthKeyEmail\<rparr>
        in (case parseOptions (api, w1) of
              Inl err \<Rightarrow> Inl (errors_Wrap err ''options parsing failed'')
            | Inr (api2, w2) \<Rightarrow>
                (case httpClient api2 of
                   None \<Rightarrow> Inr (api2\<lparr>httpClient := Some (DefaultClient env)\<rparr>, w2)
                 | Some _ \<Rightarrow> Inr (api2, w2))))"

text \<open>Passing no options: \<^verbatim>\<open>parseOptions\<close> has nothing to apply and returns nil.\<close>

definition no_options :: "API \<times> world \<Rightarrow> error + API \<times> world" where
  "no_options s = Inr s"

definition SetAuthType :: "API \<Rightarrow> 64 word \<Rightarrow> API" where
  "SetAuthType api t = api\<lparr>authType := t\<rparr>"

subsection \<open>ZoneIDByName\<close>

text \<open>The two fields of \<^verbatim>\<open>Zone\<close> that the lookup reads.\<close>

record Zone =
  ID :: string
  Name :: string

text \<open>The \<^verbatim>\<open>for _, zone := range res\<close> loop with its two returns.\<close>

fun ZoneIDByName_loop :: "string \<Rightarrow> Zone list \<Rightarrow> error + string" where
  "ZoneIDByName_loop zoneName [] = Inl (errors_New ''Zone could not be found'')"
| "ZoneIDByName_loop zoneName (zone # res) =
     (if Name zone = zoneName then Inr (ID zone) else ZoneIDByName_loop zoneName res)"

text \<open>
  \<open>ListZones\<close> stands for the method \<^verbatim>\<open>api.ListZones\<close>, defined outside these files:
  the listing the API returned, or the error.
\<close>

definition ZoneIDByName :: "(string \<Rightarrow> error + Zone list) \<Rightarrow> string \<Rightarrow> error + string" where
  "ZoneIDByName ListZones zoneName =
     (case ListZones zoneName of
        Inl err \<Rightarrow> Inl (errors_Wrap err ''ListZones command failed'')
      | Inr res \<Rightarrow> ZoneIDByName_loop zoneName res)"

section \<open>The log retriever\<close>

text \<open>
  The retriever (the Query type, the streaming decode loop, the retrieval entry point)
  is described by the specification only; its definitions follow the specification's
  sections 3, 4.2, 7 and 8.
\<close>

text \<open>
  Modelled from the spec: the error kinds of section 7, which the missing retriever
  raises. \<open>DecodeError\<close> carries the record index where decoding failed, \<open>APIError\<close>
  the status code and the body.
\<close>

datatype retrieval_error =
    InvalidQuery
  | AuthError
  | PermissionError
  | TransientError
  | APIError int string
  | DecodeError nat

text \<open>
  Modelled from the spec: the missing \<open>Query\<close> type of section 3. The selector is a ray
  ID or a time range \<open>[StartTime, EndTime)\<close>; \<open>Count\<close> is the number of records asked
  for, a negative value being the unbounded sentinel.
\<close>

record Query =
  RayID :: "string option"
  TimeRange :: "(int \<times> int) option"
  Count :: int
  Sample :: "rat option"
  Fields :: "string list"
  TimestampFormat :: "string option"

text \<open>
  Modelled from the spec: the missing validation of a \<open>Query\<close> when it is constructed
  (sections 3 and 7): exactly one selector must be set, and \<open>StartTime < EndTime\<close> when
  the time range is used; anything else fails with \<open>InvalidQuery\<close>.
\<close>

definition validate_Query :: "Query \<Rightarrow> retrieval_error + Query" where
  "validate_Query q =
     (case (RayID q, TimeRange q) of
        (Some _, Some _) \<Rightarrow> Inl InvalidQuery
      | (None, None) \<Rightarrow> Inl InvalidQuery
      | (Some _, None) \<Rightarrow> Inr q
      | (None, Some (startTime, endTime)) \<Rightarrow> if startTime < endTime then Inr q else Inl InvalidQuery)"

text \<open>
  Modelled from the spec: how a stream of the missing retriever ends (the final states
  \<open>Exhausted\<close> and \<open>Failed\<close> of section 4.2).
\<close>

datatype outcome = Exhausted | Failed retrieval_error

text \<open>
  Modelled from the spec: the missing decode loop of section 4.2 over the lines of the
  newline-delimited body. Records are decoded one at a time and yielded in order; the
  stream ends once \<open>Count\<close> records have been emitted or the body has no more lines; a
  line that does not decode aborts the stream with \<open>DecodeError\<close> at its record index,
  and what was yielded before stays yielded. \<open>decode\<close> is the JSON decoder of one line,
  \<open>i\<close> the index of the next record.
\<close>

fun decode_loop :: "(string \<Rightarrow> 'r option) \<Rightarrow> int \<Rightarrow> nat \<Rightarrow> string list \<Rightarrow> 'r list \<times> outcome" where
  "decode_loop decode count i [] = ([], Exhausted)"
| "decode_loop decode count i (line # rest) =
     (if 0 \<le> count \<and> count \<le> int i then ([], Exhausted)
      else (case decode line of
              None \<Rightarrow> ([], Failed (DecodeError i))
            | Some r \<Rightarrow>
                (case decode_loop decode count (Suc i) rest of
                   (rs, out) \<Rightarrow> (r # rs, out))))"

text \<open>
  Modelled from the spec: what one run of the missing retrieval entry point leaves
  behind: the records yielded to the consumer in order, the queries sent over the
  network, and how the stream ended.
\<close>

record 'r stream =
  yielded :: "'r list"
  fetched :: "Query list"
  ending :: outcome

text \<open>
  Modelled from the spec: the missing entry point "retrieve records for Query Q" of
  sections 4.2, 6 and 7. An invalid query fails fast and is never sent; a classified
  error of the fetcher is passed on to the consumer with no retry; otherwise the body is
  decoded by the loop above. \<open>fetch\<close> is the HTTP fetcher: the lines of the response
  body, or the classified error. The specification leaves open how a window is split
  into several fetches; the lines are those of the bodies in order.
\<close>

definition retrieve ::
  "(Query \<Rightarrow> retrieval_error + string list) \<Rightarrow> (string \<Rightarrow> 'r option) \<Rightarrow> Query \<Rightarrow> 'r stream" where
  "retrieve fetch decode q =
     (case validate_Query q of
        Inl e \<Rightarrow> \<lparr>yielded = [], fetched = [], ending = Failed e\<rparr>
      | Inr q' \<Rightarrow>
          (case fetch q' of
             Inl e \<Rightarrow> \<lparr>yielded = [], fetched = [q'], ending = Failed e\<rparr>
           | Inr lines \<Rightarrow>
               (case decode_loop decode (Count q') 0 lines of
                  (rs, out) \<Rightarrow> \<lparr>yielded = rs, fetched = [q'], ending = out\<rparr>)))"

section \<open>Example values\<close>

text \<open>
  A concrete surrounding: every method and URL is accepted, parameters marshal to
  \<open>null\<close>, the default transport answers 200 with an empty JSON object and writes
  nothing.
\<close>

definition env0 :: "unit env" where
  "env0 = \<lparr>errEmptyCredentials = ''empty credentials'',
           DefaultClient = (\<lambda>req h m. (m, Inr \<lparr>StatusCode = 200, Body = Inr ''{}''\<rparr>)),
           json_Marshal = (\<lambda>p. Inr ''null''),
           http_NewRequest = (\<lambda>method url. None)\<rparr>"

text \<open>The empty memory: no map object, no array, nothing sent.\<close>

definition w0 :: world where
  "w0 = \<lparr>heap = [], slices = [], sent = []\<rparr>"

text \<open>An option that returns an error.\<close>

definition failing_options :: "API \<times> world \<Rightarrow> error + API \<times> world" where
  "failing_options s = Inl (errors_New ''option failed'')"

text \<open>
  A transport that answers every request with the given status and body and writes
  nothing.
\<close>

definition answer :: "int \<Rightarrow> string \<Rightarrow> http_client" where
  "answer code body req h m = (m, Inr \<lparr>StatusCode = code, Body = Inr body\<rparr>)"

text \<open>A transport whose answer has the given status and a body that cannot be read.\<close>

definition unreadable :: "int \<Rightarrow> http_client" where
  "unreadable code req h m =
     (m, Inr \<lparr>StatusCode = code, Body = Inl (errors_New ''unexpected EOF'')\<rparr>)"

text \<open>
  A transport that overwrites the header values of the request it is handed, in place
  (\<^verbatim>\<open>for _, vs := range req.Header { for i := range vs { vs[i] = "overwritten" } }\<close>),
  and answers 200.
\<close>

definition overwriting :: http_client where
  "overwriting req h m =
     (m\<lparr>slices := fold (\<lambda>(k, vs) ss. ss[vs := map (\<lambda>v. ''overwritten'') (ss ! vs)])
                      (heap m ! h) (slices m)\<rparr>,
      Inr \<lparr>StatusCode = 200, Body = Inr ''{}''\<rparr>)"

text \<open>A client with a token only, no stored headers and the given transport.\<close>

definition api0 :: "http_client \<Rightarrow> API" where
  "api0 client = \<lparr>APIToken = ''tok'', APIKey = [], APIEmail = [],
                   APIUserServiceKey = [], BaseURL = apiURL, organizationID = [],
                   headers = None, httpClient = Some client, authType = AuthKeyEmail\<rparr>"

text \<open>
  A memory with one stored header map, X-Trace: abc, and a client whose stored headers
  are that map.
\<close>

definition w_stored :: world where
  "w_stored = \<lparr>heap = [[(''X-Trace'', 0)]], slices = [[''abc'']], sent = []\<rparr>"

definition api_stored :: "http_client \<Rightarrow> API" where
  "api_stored client = (api0 client)\<lparr>headers := Some 0\<rparr>"

text \<open>A zone listing with two zones of the same name and one that differs in case.\<close>

definition zones0 :: "Zone list" where
  "zones0 = [\<lparr>ID = ''z1'', Name = ''Example.com''\<rparr>,
             \<lparr>ID = ''z2'', Name = ''example.com''\<rparr>,
             \<lparr>ID = ''z3'', Name = ''example.com''\<rparr>]"

text \<open>
  The client that \<^verbatim>\<open>New\<close> returns in the empty memory for a token and no key or
  email.
\<close>

definition token_client :: API where
  "token_client = \<lparr>APIToken = ''tok'', APIKey = [], APIEmail = [],
                    APIUserServiceKey = [], BaseURL = apiURL, organizationID = [],
                    headers = Some 0, httpClient = Some (DefaultClient env0),
                    authType = AuthKeyEmail\<rparr>"

text \<open>
  A stand-in for the JSON decoder of one line: a line decodes when it opens and closes
  with a brace, and the record is the line.
\<close>

definition decode0 :: "string \<Rightarrow> string option" where
  "decode0 line =
     (if line \<noteq> [] \<and> hd line = CHR ''{'' \<and> last line = CHR ''}'' then Some line else None)"

text \<open>A fetcher that answers every query with the given lines.\<close>

definition fetch_lines :: "string list \<Rightarrow> Query \<Rightarrow> retrieval_error + string list" where
  "fetch_lines lines q = Inr lines"

text \<open>Queries: by time range with a given count, with both selectors, with neither.\<close>

definition query_time :: "int \<Rightarrow> Query" where
  "query_time k = \<lparr>RayID = None, TimeRange = Some (1000, 2000), Count = k, Sample = None,
                    Fields = [], TimestampFormat = None\<rparr>"

definition query_both :: Query where
  "query_both = \<lparr>RayID = Some ''47ff6e2c812d3ccf'', TimeRange = Some (1000, 2000), Count = 1,
                  Sample = None, Fields = [], TimestampFormat = None\<rparr>"

definition query_neither :: Query where
  "query_neither = \<lparr>RayID = None, TimeRange = None, Count = 1,
                     Sample = None, Fields = [], TimestampFormat = None\<rparr>"

text \<open>Bodies: three well-formed lines, and a well-formed line before a truncated one.\<close>

definition lines_abc :: "string list" where
  \<open>lines_abc = [''{"RayID":"a"}'', ''{"RayID":"b"}'', ''{"RayID":"c"}'']\<close>

definition lines_bad :: "string list" where
  \<open>lines_bad = [''{"RayID":"a"}'', ''{"RayID":'']\<close>

section \<open>Properties\<close>

lemma ZoneIDByName_loop_find:
  "ZoneIDByName_loop zoneName res =
     (case find (\<lambda>zone. Name zone = zoneName) res of
        Some zone \<Rightarrow> Inr (ID zone)
      | None \<Rightarrow> Inl (errors_New ''Zone could not be found''))"
  by (induction res) simp_all

text \<open>The unfolding rules of the example values and of the client.\<close>

lemmas example_defs = env0_def w0_def failing_options_def answer_def unreadable_def overwriting_def
    api0_def w_stored_def api_stored_def zones0_def no_options_def
lemmas client_defs = makeRequest_def makeRequestWithAuthType_def marshal_params_def request_def
    cloneHeader_def make_Header_def make_slice_def deref_def Header_Set_def Header_Get_def
    map_assign_def header_values_def status_switch_def
    AuthApiToken_def AuthKeyEmail_def AuthUserService_def apiURL_def New_def

subsection \<open>Zone lookup\<close>

text \<open>
  C10: for every zone name and every listing that \<^verbatim>\<open>ListZones\<close> returns,
  \<^verbatim>\<open>ZoneIDByName\<close> returns the ID of the first listed zone whose Name is equal to the
  requested name (equality of strings, so case matters), and the error
  "Zone could not be found" when no listed zone has that name.
\<close>

theorem ZoneIDByName_first_match:
  assumes "ListZones zoneName = Inr res"
  shows "ZoneIDByName ListZones zoneName =
     (case find (\<lambda>zone. Name zone = zoneName) res of
        Some zone \<Rightarrow> Inr (ID zone)
      | None \<Rightarrow> Inl (errors_New ''Zone could not be found''))"
  using assms by (simp add: ZoneIDByName_def ZoneIDByName_loop_find)

text \<open>
  In a listing that holds Example.com before two zones named example.com, the lookup of
  example.com returns the ID of the second entry; no zone is named EXAMPLE.COM.
\<close>

theorem ZoneIDByName_first_match_witness:
  "ZoneIDByName (\<lambda>name. Inr zones0) ''example.com'' = Inr ''z2'' \<and>
   ZoneIDByName (\<lambda>name. Inr zones0) ''EXAMPLE.COM'' = Inl (errors_New ''Zone could not be found'')"
  using ZoneIDByName_first_match [of "\<lambda>name. Inr zones0" "''example.com''" zones0]
        ZoneIDByName_first_match [of "\<lambda>name. Inr zones0" "''EXAMPLE.COM''" zones0]
  by (simp add: zones0_def)

subsection \<open>Construction\<close>

text \<open>
  C4 as stated fails: with a non-empty token, \<^verbatim>\<open>New\<close> still returns an error when
  parsing the options fails.
\<close>

theorem New_options_counterexample:
  "''tok'' \<noteq> [] \<and>
   New env0 failing_options w0 ''tok'' [] [] =
     Inl (errors_Wrap (errors_New ''option failed'') ''options parsing failed'')"
  by (simp add: New_def make_Header_def failing_options_def)

text \<open>
  C4, amended: with a non-empty token, or with a non-empty key and a non-empty email,
  \<^verbatim>\<open>New\<close> succeeds exactly when parsing the options (on the client it has built)
  succeeds, as it always does when no options are passed, and otherwise fails with the
  "options parsing failed" error that wraps the options' error; with an empty token and
  the key or the email empty it fails with the empty-credentials error. So \<^verbatim>\<open>New\<close>
  returns an error if and only if the token is empty and the key or the email is empty,
  or parsing the options returns an error.
\<close>

theorem New_outcome:
  "(let built = (\<lparr>APIToken = token, APIKey = key, APIEmail = email,
                   APIUserServiceKey = [], BaseURL = apiURL, organizationID = [],
                   headers = Some (length (heap w)), httpClient = None,
                   authType = AuthKeyEmail\<rparr>,
                 w\<lparr>heap := heap w @ [[]]\<rparr>);
        empty = (token = [] \<and> (key = [] \<or> email = []))
    in (New env parseOptions w token key email = Inl (errors_New (errEmptyCredentials env))
          \<longleftrightarrow> empty) \<and>
       (\<not> empty \<longrightarrow>
          (\<forall>err. parseOptions built = Inl err \<longrightarrow>
             New env parseOptions w token key email =
               Inl (errors_Wrap err ''options parsing failed''))) \<and>
       (isl (New env parseOptions w token key email)
          \<longleftrightarrow> empty \<or> isl (parseOptions built)) \<and>
       (isl (New env no_options w token key email) \<longleftrightarrow> empty))"
  by (auto simp: New_def make_Header_def no_options_def Let_def
           split: sum.splits option.splits prod.splits)

text \<open>
  A failing option with a key and an email, no options with a token only, and no options
  with a key and no email.
\<close>

theorem New_outcome_witness:
  "New env0 failing_options w0 [] ''key'' ''a@example.com'' =
     Inl (errors_Wrap (errors_New ''option failed'') ''options parsing failed'') \<and>
   \<not> isl (New env0 no_options w0 ''tok'' [] []) \<and>
   New env0 no_options w0 [] ''key'' [] = Inl (errors_New (errEmptyCredentials env0))"
  using New_outcome [of "[]" "''key''" "''a@example.com''" w0 env0 failing_options]
        New_outcome [of "''tok''" "[]" "[]" w0 env0 no_options]
        New_outcome [of "[]" "''key''" "[]" w0 env0 no_options]
  by (simp add: Let_def failing_options_def no_options_def)

subsection \<open>Classification of a response by its status\<close>

text \<open>Once the transport has answered and the body was read, the switch decides.\<close>

lemma makeRequestWithAuthType_response:
  assumes "marshal_params env params = Inr reqBody"
      and "request env api w method uri reqBody authT = (s, Inr resp)"
      and "Body resp = Inr body"
  shows "makeRequestWithAuthType env api w method uri params authT =
           (s, status_switch (StatusCode resp) body)"
  using assms by (simp add: makeRequestWithAuthType_def)

text \<open>
  C1 as stated fails: the body is read before the status is looked at, and a response
  with the status 401 whose body cannot be read yields the read error, not the
  invalid-credentials error.
\<close>

theorem unread_body_counterexample:
  "snd (makeRequestWithAuthType env0 (api0 (unreadable 401)) w0 ''GET'' ''/zones'' None AuthKeyEmail) =
     Inl (errors_Wrap (errors_New ''unexpected EOF'') ''could not read response body'')"
  by (simp add: client_defs example_defs)

text \<open>
  C1, amended: for every fetch whose response was received and whose body was read, the
  outcome is classified by status code as follows: 401 yields the invalid-credentials
  error, 403 the insufficient-permissions error, 502, 503, 504, 522, 523 and 524 the
  service-failure error, and every other status outside the 2xx range the generic error
  that carries the status code and the text of the response body.
\<close>

theorem status_classification:
  assumes "marshal_params env params = Inr reqBody"
      and "request env api w method uri reqBody authT = (s, Inr resp)"
      and "Body resp = Inr body"
      and "StatusCode resp < 200 \<or> 300 \<le> StatusCode resp"
  shows "snd (makeRequestWithAuthType env api w method uri params authT) =
     (if StatusCode resp = 401 then
        Inl (errors_Errorf ''HTTP status %d: invalid credentials'' [D 401])
      else if StatusCode resp = 403 then
        Inl (errors_Errorf ''HTTP status %d: insufficient permissions'' [D 403])
      else if StatusCode resp \<in> {502, 503, 504, 522, 523, 524} then
        Inl (errors_Errorf ''HTTP status %d: service failure'' [D (StatusCode resp)])
      else
        Inl (errors_Errorf ''HTTP status %d: content %q'' [D (StatusCode resp), Q body]))"
  using assms(4) by (auto simp: makeRequestWithAuthType_response [OF assms(1-3)] status_switch_def)

text \<open>The example client's request reaches its transport, which answers.\<close>

lemma request_answer:
  "request env0 (api0 (answer code body)) w0 ''GET'' ''/zones'' None AuthKeyEmail =
     (fst (request env0 (api0 (answer code body)) w0 ''GET'' ''/zones'' None AuthKeyEmail),
      Inr \<lparr>StatusCode = code, Body = Inr body\<rparr>)"
  by (simp add: request_def env0_def api0_def answer_def Let_def split: prod.splits)

text \<open>The statuses 401, 403, 522 and 404 on the example client.\<close>

theorem status_classification_witness:
  "snd (makeRequestWithAuthType env0 (api0 (answer 401 ''{}'')) w0 ''GET'' ''/zones'' None AuthKeyEmail) =
     Inl (errors_Errorf ''HTTP status %d: invalid credentials'' [D 401]) \<and>
   snd (makeRequestWithAuthType env0 (api0 (answer 403 ''{}'')) w0 ''GET'' ''/zones'' None AuthKeyEmail) =
     Inl (errors_Errorf ''HTTP status %d: insufficient permissions'' [D 403]) \<and>
   snd (makeRequestWithAuthType env0 (api0 (answer 522 ''{}'')) w0 ''GET'' ''/zones'' None AuthKeyEmail) =
     Inl (errors_Errorf ''HTTP status %d: service failure'' [D 522]) \<and>
   snd (makeRequestWithAuthType env0 (api0 (answer 404 ''not found'')) w0 ''GET'' ''/zones'' None AuthKeyEmail) =
     Inl (errors_Errorf ''HTTP status %d: content %q'' [D 404, Q ''not found''])"
proof -
  have m: "marshal_params env0 None = Inr None"
    by (simp add: marshal_params_def)
  show ?thesis
    using status_classification [OF m request_answer [of 401 "''{}''"], of "''{}''"]
          status_classification [OF m request_answer [of 403 "''{}''"], of "''{}''"]
          status_classification [OF m request_answer [of 522 "''{}''"], of "''{}''"]
          status_classification [OF m request_answer [of 404 "''not found''"], of "''not found''"]
    by simp
qed

text \<open>
  C3 as stated fails: the status 204 is in the 2xx range, and the call returns the
  generic error.
\<close>

theorem success_2xx_counterexample:
  "snd (makeRequestWithAuthType env0 (api0 (answer 204 [])) w0 ''GET'' ''/zones'' None AuthKeyEmail) =
     Inl (errors_Errorf ''HTTP status %d: content %q'' [D 204, Q []])"
  by (simp add: client_defs example_defs)

text \<open>
  C3, amended: for a response that was received and read, the call returns the response
  body with no error when the status is 200, and returns an error for every other
  status, the other 2xx statuses included.
\<close>

theorem success_only_200:
  assumes "marshal_params env params = Inr reqBody"
      and "request env api w method uri reqBody authT = (s, Inr resp)"
      and "Body resp = Inr body"
  shows "(StatusCode resp = 200 \<longrightarrow>
            snd (makeRequestWithAuthType env api w method uri params authT) = Inr body) \<and>
         (StatusCode resp \<noteq> 200 \<longrightarrow>
            isl (snd (makeRequestWithAuthType env api w method uri params authT)))"
  by (simp add: makeRequestWithAuthType_response [OF assms] status_switch_def)

text \<open>The statuses 200 and 201 on the example client.\<close>

theorem success_only_200_witness:
  "snd (makeRequestWithAuthType env0 (api0 (answer 200 ''{}'')) w0 ''GET'' ''/zones'' None AuthKeyEmail) = Inr ''{}'' \<and>
   isl (snd (makeRequestWithAuthType env0 (api0 (answer 201 ''{}'')) w0 ''GET'' ''/zones'' None AuthKeyEmail))"
proof -
  have m: "marshal_params env0 None = Inr None"
    by (simp add: marshal_params_def)
  show ?thesis
    using success_only_200 [OF m request_answer [of 200 "''{}''"], of "''{}''"]
          success_only_200 [OF m request_answer [of 201 "''{}''"], of "''{}''"]
    by simp
qed

subsection \<open>What a request leaves in memory\<close>






text \<open>An assignment to the map at \<open>h\<close> touches that object only.\<close>

lemma map_assign_fields:
  "heap (map_assign h k vs w) = (heap w)[h := AList.update k vs (heap w ! h)]"
  "slices (map_assign h k vs w) = slices w"
  "sent (map_assign h k vs w) = sent w"
  by (simp_all add: map_assign_def)

lemma preserved_map_assign:
  "preserved u w \<Longrightarrow> length (heap u) \<le> h \<Longrightarrow> preserved u (map_assign h k vs w)"
  by (simp add: preserved_def map_assign_fields)

lemma fold_map_assign_frame:
  "slices (fold (\<lambda>(k, vs) w'. map_assign h k vs w') xs w) = slices w \<and>
   length (heap (fold (\<lambda>(k, vs) w'. map_assign h k vs w') xs w)) = length (heap w) \<and>
   sent (fold (\<lambda>(k, vs) w'. map_assign h k vs w') xs w) = sent w"
  by (induction xs arbitrary: w) (auto simp: map_assign_fields)

lemma fold_map_assign_preserved:
  "preserved u w \<Longrightarrow> length (heap u) \<le> h \<Longrightarrow>
   preserved u (fold (\<lambda>(k, vs) w'. map_assign h k vs w') xs w)"
  by (induction xs arbitrary: w) (auto simp: preserved_map_assign)

lemma fold_map_assign_nth:
  "h < length (heap w) \<Longrightarrow>
   heap (fold (\<lambda>(k, vs) w'. map_assign h k vs w') xs w) ! h =
     fold (\<lambda>(k, vs) al. AList.update k vs al) xs (heap w ! h)"
  by (induction xs arbitrary: w) (auto simp: map_assign_def)

text \<open>
  The clone is a new map object, built from the entries of the argument; no array is
  made or changed.
\<close>

lemma cloneHeader_frame:
  assumes "cloneHeader w hdr = (h, w1)"
  shows "h = length (heap w)" and "preserved w w1"
    and "length (heap w1) = Suc (length (heap w))" and "sent w1 = sent w"
    and "slices w1 = slices w"
    and "heap w1 ! h = fold (\<lambda>(k, vs) al. AList.update k vs al) (deref w hdr) []"
proof -
  let ?w = "w\<lparr>heap := heap w @ [[]]\<rparr>"
  have eq: "h = length (heap w)"
           "w1 = fold (\<lambda>(k, vs) w'. map_assign (length (heap w)) k vs w') (deref w hdr) ?w"
    using assms by (auto simp: cloneHeader_def make_Header_def)
  show "h = length (heap w)" by (rule eq(1))
  have p: "preserved w ?w" by (simp add: preserved_def)
  show "preserved w w1"
    unfolding eq(2) by (rule fold_map_assign_preserved [OF p]) simp
  show "length (heap w1) = Suc (length (heap w))" "sent w1 = sent w" "slices w1 = slices w"
    unfolding eq(2) by (simp_all add: fold_map_assign_frame)
  show "heap w1 ! h = fold (\<lambda>(k, vs) al. AList.update k vs al) (deref w hdr) []"
    unfolding eq using fold_map_assign_nth [of "length (heap w)" ?w "deref w hdr"] by simp
qed

text \<open>\<^verbatim>\<open>Header.Set\<close> makes one array and writes one entry of the map at \<open>h\<close>.\<close>

lemma Header_Set_fields:
  "heap (Header_Set h k v w) = (heap w)[h := AList.update k (length (slices w)) (heap w ! h)]"
  "slices (Header_Set h k v w) = slices w @ [[v]]"
  "sent (Header_Set h k v w) = sent w"
  by (simp_all add: Header_Set_def make_slice_def map_assign_def)






subsection \<open>Authentication headers\<close>

text \<open>A key is absent from the clone exactly when the argument does not have it.\<close>

lemma map_of_fold_update_None:
  "map_of (fold (\<lambda>(k, vs) al. AList.update k vs al) xs acc) key = None \<longleftrightarrow>
     map_of acc key = None \<and> key \<notin> fst ` set xs"
  by (induction xs arbitrary: acc) (auto simp: update_conv' split: if_splits)

text \<open>Looking a key up in the header as sent.\<close>

lemma map_of_header_values:
  "map_of (header_values w h) key = map_option (\<lambda>vs. slices w ! vs) (map_of (heap w ! h) key)"
  by (simp add: header_values_def map_of_map)

lemma map_of_heap_Header_Set:
  "h < length (heap w) \<Longrightarrow>
   map_of (heap (Header_Set h k v w) ! h) = (map_of (heap w ! h))(k \<mapsto> length (slices w))"
  by (simp add: Header_Set_fields update_conv')

text \<open>
  C2, amended: a request that the client hands to its transport carries the
  authentication headers that the bits of the auth type it is issued with select (the
  stored headers holding no authentication header of their own): the header
  Authorization: Bearer with the client's token exactly when the AuthApiToken bit is set,
  and the pair X-Auth-Key, X-Auth-Email with the client's key and email exactly when the
  AuthKeyEmail bit is set. So a request issued with the auth type AuthApiToken carries
  the bearer header and no key and email, and one issued with AuthKeyEmail the pair and
  no bearer header.
\<close>

theorem request_auth_headers:
  assumes nr: "http_NewRequest env method (BaseURL api @ uri) = None"
      and cl: "httpClient api = Some client"
      and st: "fst ` set (deref w (headers api)) \<inter>
                 {''Authorization'', ''X-Auth-Key'', ''X-Auth-Email''} = {}"
  shows "\<exists>req. sent (snd (fst (request env api w method uri reqBody authT))) = sent w @ [req] \<and>
           map_of (Header req) ''Authorization'' =
             (if authT AND AuthApiToken \<noteq> 0 then Some [''Bearer '' @ APIToken api] else None) \<and>
           map_of (Header req) ''X-Auth-Key'' =
             (if authT AND AuthKeyEmail \<noteq> 0 then Some [APIKey api] else None) \<and>
           map_of (Header req) ''X-Auth-Email'' =
             (if authT AND AuthKeyEmail \<noteq> 0 then Some [APIEmail api] else None)"
proof -
  obtain h w1 where c: "cloneHeader w (headers api) = (h, w1)"
    by (cases "cloneHeader w (headers api)")
  note f = cloneHeader_frame [OF c]
  have hlt: "h < length (heap w1)" using f(1) f(3) by simp
  define w2 where "w2 = (if authT AND AuthApiToken \<noteq> 0
                    then Header_Set h ''Authorization'' (''Bearer '' @ APIToken api) w1
                    else w1)"
  define w3 where "w3 = (if authT AND AuthKeyEmail \<noteq> 0
                    then Header_Set h ''X-Auth-Email'' (APIEmail api)
                           (Header_Set h ''X-Auth-Key'' (APIKey api) w2)
                    else w2)"
  define w4 where "w4 = (if authT AND AuthUserService \<noteq> 0
                    then Header_Set h ''X-Auth-User-Service-Key'' (APIUserServiceKey api) w3
                    else w3)"
  define w5 where "w5 = (if Header_Get h ''Content-Type'' w4 = []
                    then Header_Set h ''Content-Type'' ''application/json'' w4
                    else w4)"
  have n2: "h < length (heap w2)" using hlt by (simp add: w2_def Header_Set_fields)
  have n3: "h < length (heap w3)" using n2 by (simp add: w3_def Header_Set_fields)
  have n4: "h < length (heap w4)" using n3 by (simp add: w4_def Header_Set_fields)
  have s5: "sent w5 = sent w"
    by (simp add: w5_def w4_def w3_def w2_def Header_Set_fields f(4))
  have m1: "map_of (heap w1 ! h) ''Authorization'' = None"
           "map_of (heap w1 ! h) ''X-Auth-Key'' = None"
           "map_of (heap w1 ! h) ''X-Auth-Email'' = None"
    using st by (auto simp: f(6) map_of_fold_update_None)
  have m2: "map_of (heap w2 ! h) =
              (if authT AND AuthApiToken \<noteq> 0
               then (map_of (heap w1 ! h))(''Authorization'' \<mapsto> length (slices w1))
               else map_of (heap w1 ! h))"
    using hlt by (simp add: w2_def map_of_heap_Header_Set)
  have a2: "slices w2 =
              (if authT AND AuthApiToken \<noteq> 0
               then slices w1 @ [[''Bearer '' @ APIToken api]] else slices w1)"
    by (simp add: w2_def Header_Set_fields)
  have m3: "map_of (heap w3 ! h) =
              (if authT AND AuthKeyEmail \<noteq> 0
               then (map_of (heap w2 ! h))(''X-Auth-Key'' \<mapsto> length (slices w2),
                                           ''X-Auth-Email'' \<mapsto> Suc (length (slices w2)))
               else map_of (heap w2 ! h))"
    using n2 by (simp add: w3_def Header_Set_fields update_conv')
  have a3: "slices w3 =
              (if authT AND AuthKeyEmail \<noteq> 0
               then slices w2 @ [[APIKey api], [APIEmail api]] else slices w2)"
    by (simp add: w3_def Header_Set_fields)
  have m4: "map_of (heap w4 ! h) =
              (if authT AND AuthUserService \<noteq> 0
               then (map_of (heap w3 ! h))(''X-Auth-User-Service-Key'' \<mapsto> length (slices w3))
               else map_of (heap w3 ! h))"
    using n3 by (simp add: w4_def map_of_heap_Header_Set)
  have a4: "\<exists>ys. slices w4 = slices w3 @ ys"
    by (simp add: w4_def Header_Set_fields)
  have m5: "map_of (heap w5 ! h) =
              (if Header_Get h ''Content-Type'' w4 = []
               then (map_of (heap w4 ! h))(''Content-Type'' \<mapsto> length (slices w4))
               else map_of (heap w4 ! h))"
    using n4 by (simp add: w5_def map_of_heap_Header_Set)
  have a5: "\<exists>ys. slices w5 = slices w4 @ ys"
    by (simp add: w5_def Header_Set_fields)
  obtain ys where ys: "slices w5 = slices w3 @ ys"
    using a4 a5 by auto
  have a: "map_of (header_values w5 h) ''Authorization'' =
             (if authT AND AuthApiToken \<noteq> 0 then Some [''Bearer '' @ APIToken api] else None)"
    by (simp add: map_of_header_values m5 m4 m3 m2 m1 ys a3 a2 nth_append)
  have k: "map_of (header_values w5 h) ''X-Auth-Key'' =
             (if authT AND AuthKeyEmail \<noteq> 0 then Some [APIKey api] else None)"
    by (simp add: map_of_header_values m5 m4 m3 m2 m1 ys a3 nth_append)
  have e: "map_of (header_values w5 h) ''X-Auth-Email'' =
             (if authT AND AuthKeyEmail \<noteq> 0 then Some [APIEmail api] else None)"
    by (simp add: map_of_header_values m5 m4 m3 m2 m1 ys a3 nth_append)
  define req where "req = \<lparr>Method = (if method = [] then ''GET'' else method),
                             URL = BaseURL api @ uri, ReqBody = reqBody,
                             Header = header_values w5 h\<rparr>"
  have r: "request env api w method uri reqBody authT =
             (case client req h w5 of
                (w6, Inl err) \<Rightarrow>
                  ((api, w6\<lparr>sent := sent w5 @ [req]\<rparr>),
                   Inl (errors_Wrap err ''HTTP request failed''))
              | (w6, Inr resp) \<Rightarrow>
                  ((api, w6\<lparr>sent := sent w5 @ [req]\<rparr>), Inr resp))"
    unfolding request_def nr c cl req_def w5_def w4_def w3_def w2_def
    by (simp only: Let_def option.case prod.case)
  have "sent (snd (fst (request env api w method uri reqBody authT))) = sent w @ [req]"
    unfolding r using s5 by (simp split: sum.splits prod.splits)
  moreover have "Header req = header_values w5 h" by (simp add: req_def)
  ultimately show ?thesis using a k e by auto
qed

text \<open>The example client after \<^verbatim>\<open>SetAuthType(AuthApiToken)\<close>.\<close>

theorem request_auth_headers_witness:
  "\<exists>req. sent (snd (fst (request env0 (SetAuthType (api0 (answer 200 ''{}'')) AuthApiToken) w0
                                ''GET'' ''/zones'' None AuthApiToken))) = [req] \<and>
         map_of (Header req) ''Authorization'' = Some [''Bearer tok''] \<and>
         map_of (Header req) ''X-Auth-Key'' = None \<and>
         map_of (Header req) ''X-Auth-Email'' = None"
  using request_auth_headers [of env0 "''GET''" "SetAuthType (api0 (answer 200 ''{}'')) AuthApiToken"
          "''/zones''" "answer 200 ''{}''" w0 None AuthApiToken]
  by (simp add: env0_def api0_def w0_def deref_def SetAuthType_def AuthApiToken_def AuthKeyEmail_def)

text \<open>
  C2 as stated fails: the client that \<^verbatim>\<open>New\<close> returns for a token and no key or
  email has the auth type AuthKeyEmail, and the request it issues carries an empty
  X-Auth-Key and X-Auth-Email and no Authorization header.
\<close>

theorem token_client_counterexample:
  "New env0 no_options w0 ''tok'' [] [] =
     Inr (token_client, \<lparr>heap = [[]], slices = [], sent = []\<rparr>) \<and>
   map Header (sent (snd (fst (makeRequest env0 token_client \<lparr>heap = [[]], slices = [], sent = []\<rparr>
                                 ''GET'' ''/zones'' None)))) =
     [[(''X-Auth-Key'', [[]]), (''X-Auth-Email'', [[]]), (''Content-Type'', [''application/json''])]]"
  by (simp add: client_defs example_defs token_client_def)

subsection \<open>The retriever\<close>

text \<open>On lines that all decode, the loop yields the first records, up to the count.\<close>

lemma decode_loop_all_decodable:
  "\<forall>l\<in>set ls. decode l \<noteq> None \<Longrightarrow>
   map Some (fst (decode_loop decode c i ls)) =
     map decode (take (if c < 0 then length ls else nat c - i) ls) \<and>
   snd (decode_loop decode c i ls) = Exhausted"
proof (induction ls arbitrary: i)
  case Nil
  then show ?case by simp
next
  case (Cons line rest)
  show ?case
  proof (cases "0 \<le> c \<and> c \<le> int i")
    case True
    then have "nat c \<le> i" by linarith
    then show ?thesis using True by simp
  next
    case False
    obtain r where r: "decode line = Some r" using Cons.prems by auto
    have ih: "map Some (fst (decode_loop decode c (Suc i) rest)) =
                map decode (take (if c < 0 then length rest else nat c - Suc i) rest) \<and>
              snd (decode_loop decode c (Suc i) rest) = Exhausted"
      using Cons.IH [of "Suc i"] Cons.prems by simp
    have t: "\<not> c < 0 \<Longrightarrow> nat c - i = Suc (nat c - Suc i)" using False by linarith
    show ?thesis
      using False r ih t by (auto split: prod.splits)
  qed
qed

text \<open>A line that does not decode, reached before the count, ends the loop.\<close>

lemma decode_loop_malformed:
  "n < length ls \<Longrightarrow> \<forall>j<n. decode (ls ! j) \<noteq> None \<Longrightarrow> decode (ls ! n) = None \<Longrightarrow>
   c < 0 \<or> int (i + n) < c \<Longrightarrow>
   map Some (fst (decode_loop decode c i ls)) = map decode (take n ls) \<and>
   snd (decode_loop decode c i ls) = Failed (DecodeError (i + n))"
proof (induction ls arbitrary: i n)
  case Nil
  then show ?case by simp
next
  case (Cons line rest)
  have go: "\<not> (0 \<le> c \<and> c \<le> int i)" using Cons.prems(4) by linarith
  show ?case
  proof (cases n)
    case 0
    then show ?thesis using Cons.prems(3) go by simp
  next
    case (Suc m)
    obtain r where r: "decode line = Some r" using Cons.prems(2) Suc by fastforce
    have "map Some (fst (decode_loop decode c (Suc i) rest)) = map decode (take m rest) \<and>
          snd (decode_loop decode c (Suc i) rest) = Failed (DecodeError (Suc i + m))"
    proof (rule Cons.IH)
      show "m < length rest" using Cons.prems(1) Suc by simp
      show "\<forall>j<m. decode (rest ! j) \<noteq> None" using Cons.prems(2) Suc by fastforce
      show "decode (rest ! m) = None" using Cons.prems(3) Suc by simp
      show "c < 0 \<or> int (Suc i + m) < c" using Cons.prems(4) Suc by simp
    qed
    then show ?thesis using go r Suc by (auto split: prod.splits)
  qed
qed

text \<open>A valid query whose fetch succeeds is decoded by the loop.\<close>

lemma retrieve_valid:
  assumes "validate_Query q = Inr q" and "fetch q = Inr lines"
  shows "retrieve fetch decode q =
           \<lparr>yielded = fst (decode_loop decode (Count q) 0 lines), fetched = [q],
            ending = snd (decode_loop decode (Count q) 0 lines)\<rparr>"
  using assms by (simp add: retrieve_def split: prod.splits)

text \<open>
  C7: for a stream of N available records (a valid query whose body has N lines that
  all decode) and a requested count k with k \<ge> 0, the retriever yields exactly
  min(N, k) records, and with the count -1 it yields all N; the records yielded are the
  first ones of the body, in order.
\<close>

theorem retrieve_yields_min_count:
  assumes "validate_Query q = Inr q" and "fetch q = Inr lines"
      and "\<forall>l\<in>set lines. decode l \<noteq> None"
  shows "(0 \<le> Count q \<longrightarrow>
            length (yielded (retrieve fetch decode q)) = min (length lines) (nat (Count q))) \<and>
         (Count q = -1 \<longrightarrow> length (yielded (retrieve fetch decode q)) = length lines) \<and>
         map Some (yielded (retrieve fetch decode q)) =
           map decode (take (length (yielded (retrieve fetch decode q))) lines)"
proof -
  let ?ys = "fst (decode_loop decode (Count q) 0 lines)"
  have m: "map Some ?ys =
             map decode (take (if Count q < 0 then length lines else nat (Count q)) lines)"
    using decode_loop_all_decodable [OF assms(3), of "Count q" 0] by simp
  have "length (map Some ?ys) =
          length (map decode (take (if Count q < 0 then length lines else nat (Count q)) lines))"
    by (simp only: m)
  then have l: "length ?ys = (if Count q < 0 then length lines else min (length lines) (nat (Count q)))"
    by (simp add: min_def)
  have y: "yielded (retrieve fetch decode q) = ?ys"
    using retrieve_valid [of q fetch lines decode] assms(1,2) by simp
  show ?thesis
    unfolding y using l m by (auto simp: min_def)
qed

text \<open>Three available records with the counts 2, 5 and -1.\<close>

theorem retrieve_yields_min_count_witness:
  "length (yielded (retrieve (fetch_lines lines_abc) decode0 (query_time 2))) = 2 \<and>
   length (yielded (retrieve (fetch_lines lines_abc) decode0 (query_time 5))) = 3 \<and>
   length (yielded (retrieve (fetch_lines lines_abc) decode0 (query_time (-1)))) = 3"
  using retrieve_yields_min_count [of "query_time 2" "fetch_lines lines_abc" lines_abc decode0]
        retrieve_yields_min_count [of "query_time 5" "fetch_lines lines_abc" lines_abc decode0]
        retrieve_yields_min_count [of "query_time (-1)" "fetch_lines lines_abc" lines_abc decode0]
  by (simp add: validate_Query_def query_time_def fetch_lines_def lines_abc_def decode0_def)

text \<open>
  C8 as stated fails: with the count 1 and a body whose line 1 is malformed after a
  well-formed line 0, the stream ends after the one record asked for, with no decode
  error.
\<close>

theorem decode_error_counterexample:
  "decode0 (lines_bad ! 0) \<noteq> None \<and> decode0 (lines_bad ! 1) = None \<and>
   retrieve (fetch_lines lines_bad) decode0 (query_time 1) =
     \<lparr>yielded = [lines_bad ! 0], fetched = [query_time 1], ending = Exhausted\<rparr>"
  by (simp add: retrieve_def validate_Query_def query_time_def fetch_lines_def lines_bad_def decode0_def)

text \<open>
  C8, amended: for every response body whose line at record index i is malformed while
  the lines 0 to i-1 are well-formed, and a count that is unbounded or greater than i,
  the retriever yields the records 0 to i-1, then aborts the stream with the decode error
  that identifies index i; it yields no further record, and the records already yielded
  stay yielded.
\<close>

theorem decode_error_at_index:
  assumes "validate_Query q = Inr q" and "fetch q = Inr lines"
      and "i < length lines" and "\<forall>j<i. decode (lines ! j) \<noteq> None"
      and "decode (lines ! i) = None"
      and "Count q < 0 \<or> int i < Count q"
  shows "map Some (yielded (retrieve fetch decode q)) = map decode (take i lines) \<and>
         length (yielded (retrieve fetch decode q)) = i \<and>
         ending (retrieve fetch decode q) = Failed (DecodeError i)"
proof -
  have d: "map Some (fst (decode_loop decode (Count q) 0 lines)) = map decode (take i lines) \<and>
           snd (decode_loop decode (Count q) 0 lines) = Failed (DecodeError i)"
    using decode_loop_malformed [OF assms(3-5), of "Count q" 0] assms(6) by simp
  then have "length (map Some (fst (decode_loop decode (Count q) 0 lines))) =
             length (map decode (take i lines))"
    by (simp only:)
  then have "length (fst (decode_loop decode (Count q) 0 lines)) = i"
    using assms(3) by simp
  then show ?thesis
    using d retrieve_valid [of q fetch lines decode] assms(1,2) by simp
qed

text \<open>The truncated line at index 1, with the unbounded count.\<close>

theorem decode_error_at_index_witness:
  "map Some (yielded (retrieve (fetch_lines lines_bad) decode0 (query_time (-1)))) =
     [Some (lines_bad ! 0)] \<and>
   length (yielded (retrieve (fetch_lines lines_bad) decode0 (query_time (-1)))) = 1 \<and>
   ending (retrieve (fetch_lines lines_bad) decode0 (query_time (-1))) = Failed (DecodeError 1)"
  using decode_error_at_index [of "query_time (-1)" "fetch_lines lines_bad" lines_bad 1 decode0]
  by (simp add: validate_Query_def query_time_def fetch_lines_def lines_bad_def decode0_def
        less_Suc_eq)

text \<open>
  C9: every valid Query has exactly one selector set (a ray ID or a time range, not
  both), with StartTime < EndTime when the time range is used; a Query with both
  selectors set or with neither fails with InvalidQuery, and the retriever sends no such
  query over the network.
\<close>

theorem Query_one_selector:
  "(validate_Query q = Inr q' \<longrightarrow>
      q' = q \<and> (RayID q = None) \<noteq> (TimeRange q = None) \<and>
      (\<forall>startTime endTime. TimeRange q = Some (startTime, endTime) \<longrightarrow> startTime < endTime)) \<and>
   ((RayID q \<noteq> None \<and> TimeRange q \<noteq> None) \<or> (RayID q = None \<and> TimeRange q = None) \<longrightarrow>
      validate_Query q = Inl InvalidQuery \<and>
      fetched (retrieve fetch decode q) = [] \<and>
      yielded (retrieve fetch decode q) = [] \<and>
      ending (retrieve fetch decode q) = Failed InvalidQuery)"
  by (auto simp: validate_Query_def retrieve_def split: option.splits if_splits)

text \<open>A query by time range, one with both selectors and one with neither.\<close>

theorem Query_one_selector_witness:
  "validate_Query (query_time 1) = Inr (query_time 1) \<and>
   (RayID (query_time 1) = None) \<noteq> (TimeRange (query_time 1) = None) \<and>
   validate_Query query_both = Inl InvalidQuery \<and>
   fetched (retrieve (fetch_lines lines_abc) decode0 query_both) = [] \<and>
   validate_Query query_neither = Inl InvalidQuery \<and>
   fetched (retrieve (fetch_lines lines_abc) decode0 query_neither) = []"
  using Query_one_selector [of "query_time 1" "query_time 1" "fetch_lines lines_abc" decode0]
        Query_one_selector [of query_both query_both "fetch_lines lines_abc" decode0]
        Query_one_selector [of query_neither query_neither "fetch_lines lines_abc" decode0]
  by (simp add: validate_Query_def query_time_def query_both_def query_neither_def)

end
